theory Spec2Isabelle
  imports Main "HOL-Library.AList"
begin

section \<open>Common ground: exceptions and the \<open>allzpark\<close> logger\<close>

text \<open>
  The widgets of \<open>allzpark/gui/widgets.py\<close> are Qt objects that are mutated in place.
  Each widget is embedded as a record of the fields its methods read and write, and each
  method as a function from the record to the updated record.  A method that can raise
  returns \<open>(error \<times> state) + state\<close>: \<open>Inr s\<close> when it returns normally with state \<open>s\<close>,
  and \<open>Inl (e, s)\<close> when exception \<open>e\<close> leaves the method with the widget in state \<open>s\<close>
  (Python does not roll back the mutations made before the raise).
\<close>

datatype error =
    AttributeError
  | AssertionError
  | TypeError
  | ImportError
  | OtherException string

type_synonym 's raising = "(error \<times> 's) + 's"

text \<open>
  Records handed to \<open>log = logging.getLogger("allzpark")\<close>.  A message is kept as the
  source's format string (named by a constructor) together with its arguments.
\<close>

datatype level = DEBUG | INFO | WARNING | ERROR | CRITICAL

datatype message =
    InvalidSlideDirection string        \<comment> \<open>\<open>"BUG: invalid slide direction: {}"\<close>\<close>
  | UnknownRootLevel string             \<comment> \<open>\<open>f"Unknown root level {scope.name}."\<close>\<close>
  | NoWidgetForBackend string           \<comment> \<open>\<open>f"No widget for backend {name!r}."\<close>\<close>
  | FailedToGetWidget string error      \<comment> \<open>\<open>f"Failed to get widget for backend {name!r}: {str(e)}"\<close>\<close>
  | NoValidBackend                      \<comment> \<open>\<open>"No valid backend registered."\<close>\<close>

type_synonym log_record = "level \<times> message"

definition count_level :: "level \<Rightarrow> log_record list \<Rightarrow> nat" where
  "count_level l rs = length (filter (\<lambda>r. fst r = l) rs)"


section \<open>\<open>BusyWidget\<close>\<close>

text \<open>
  A \<open>QObject\<close> with its tree of children; \<open>oid\<close> identifies the object.
\<close>

datatype qobject = QObject (oid: nat) (children: "qobject list")

datatype cursor = BusyCursor

text \<open>
  \<open>busy_works\<close> and \<open>entered\<close> are the instance attributes \<open>_busy_works\<close> and \<open>_entered\<close>.
  \<open>filtered\<close> is the set of objects on which the shared \<open>BusyEventFilterSingleton\<close> is
  currently installed (Qt keeps one installation per object and filter: installing twice
  does not duplicate, removing an absent filter does nothing).  \<open>override_cursors\<close> is
  the application's stack of override cursors, top first.
\<close>

record busy_widget =
  widget :: qobject
  busy_works :: "string set"
  entered :: bool
  filtered :: "nat set"
  override_cursors :: "cursor list"

text \<open>\<open>BusyWidget._over_busy_cursor\<close>; \<open>restoreOverrideCursor\<close> on an empty stack does nothing.\<close>

definition over_busy_cursor :: "bool \<Rightarrow> busy_widget \<Rightarrow> busy_widget" where
  "over_busy_cursor over s =
     (if over then s\<lparr>override_cursors := BusyCursor # override_cursors s\<rparr>
      else s\<lparr>override_cursors := tl (override_cursors s)\<rparr>)"

text \<open>The generator \<open>iter_children\<close> nested in \<open>BusyWidget._block_children\<close>.\<close>

fun iter_children :: "qobject \<Rightarrow> qobject list" where
  "iter_children (QObject i cs) = concat (map (\<lambda>c. c # iter_children c) cs)"

text \<open>The closure \<open>action\<close> nested in \<open>BusyWidget._block_children\<close>.\<close>

definition action :: "bool \<Rightarrow> busy_widget \<Rightarrow> qobject \<Rightarrow> busy_widget" where
  "action block s w =
     (if block then s\<lparr>filtered := insert (oid w) (filtered s)\<rparr>
      else s\<lparr>filtered := filtered s - {oid w}\<rparr>)"

definition block_children :: "bool \<Rightarrow> busy_widget \<Rightarrow> busy_widget" where
  "block_children block s =
     (let s1 = foldl (action block) s (iter_children (widget s))
      in action block s1 (widget s))"

definition set_overwhelmed :: "busy_widget \<Rightarrow> string \<Rightarrow> busy_widget" where
  "set_overwhelmed s worker =
     (let s1 = (if busy_works s = {}
                then block_children True (if entered s then over_busy_cursor True s else s)
                else s)
      in s1\<lparr>busy_works := insert worker (busy_works s1)\<rparr>)"

definition pop_overwhelmed :: "busy_widget \<Rightarrow> string \<Rightarrow> busy_widget" where
  "pop_overwhelmed s worker =
     (let s1 = (if worker \<in> busy_works s
                then s\<lparr>busy_works := busy_works s - {worker}\<rparr>
                else s)
      in if busy_works s1 = {}
         then block_children False (if entered s1 then over_busy_cursor False s1 else s1)
         else s1)"

text \<open>The objects \<open>_block_children\<close> visits: every descendant, then the widget itself.\<close>

definition subtree_ids :: "busy_widget \<Rightarrow> nat set" where
  "subtree_ids s = oid ` set (iter_children (widget s) @ [widget s])"

text \<open>Input is blocked on an object when the busy filter is installed on it.\<close>

definition blocked_ids :: "busy_widget \<Rightarrow> nat set" where
  "blocked_ids s = filtered s \<inter> subtree_ids s"


section \<open>\<open>SlidePageWidget\<close>\<close>

type_synonym qpoint = "int \<times> int"

definition qpoint_add :: "qpoint \<Rightarrow> qpoint \<Rightarrow> qpoint" where
  "qpoint_add p q = (fst p + fst q, snd p + snd q)"

definition qpoint_sub :: "qpoint \<Rightarrow> qpoint \<Rightarrow> qpoint" where
  "qpoint_sub p q = (fst p - fst q, snd p - snd q)"

text \<open>A page of the stack: its position, its size and whether it is shown.\<close>

record qwidget =
  pos :: qpoint
  extent :: "int \<times> int"
  visible :: bool

datatype easing = OutQuad

text \<open>
  A \<open>QPropertyAnimation\<close> on the property \<open>pos\<close>; \<open>target\<close> is the index of the animated
  page (\<open>None\<close> when \<open>currentWidget()\<close> gave no page).
\<close>

record property_animation =
  target :: "int option"
  duration :: int
  start_value :: qpoint
  end_value :: qpoint
  easing_curve :: easing

text \<open>
  A started \<open>QParallelAnimationGroup\<close>; \<open>then_current\<close> is the page that the connected
  \<open>slide_finished\<close> makes current when the group finishes.
\<close>

record animation_group =
  animations :: "property_animation list"
  then_current :: int

text \<open>
  \<open>QStackedWidget.widget(index)\<close>, also used for the items of a combo box: the element
  at \<open>index\<close>, or nothing when the index is out of range.
\<close>

definition widget_at :: "'a list \<Rightarrow> int \<Rightarrow> 'a option" where
  "widget_at xs i = (if 0 \<le> i \<and> i < int (length xs) then Some (xs ! nat i) else None)"

text \<open>
  The stacked widget: its pages, \<open>currentIndex()\<close> (\<open>-1\<close> without pages), the size of
  \<open>frameRect()\<close>, the pages raised so far (latest first), the animation groups started,
  and the records logged.
\<close>

record slide_page_widget =
  pages :: "qwidget list"
  current :: int
  frame_rect :: "int \<times> int"
  raised :: "int list"
  started :: "animation_group list"
  slide_log :: "log_record list"

definition directions :: "string \<rightharpoonup> qpoint" where
  "directions = [''left'' \<mapsto> (-1, 0), ''right'' \<mapsto> (1, 0), ''up'' \<mapsto> (0, 1), ''down'' \<mapsto> (0, -1)]"

text \<open>
  \<open>SlidePageWidget.slide_view\<close>.  When \<open>self.widget(index)\<close> is \<open>None\<close>, the call
  \<open>new_page.setGeometry\<close> raises \<open>AttributeError\<close>.
\<close>

definition slide_view :: "slide_page_widget \<Rightarrow> int \<Rightarrow> string \<Rightarrow> slide_page_widget raising" where
  "slide_view s index direction =
     (if current s = index then Inr s
      else case directions direction of
        None \<Rightarrow> Inr (s\<lparr>slide_log := slide_log s @ [(WARNING, InvalidSlideDirection direction)]\<rparr>)
      | Some offset_direction \<Rightarrow>
          (let width = fst (frame_rect s);
               height = snd (frame_rect s);
               offset = (fst offset_direction * width, snd offset_direction * height)
           in case widget_at (pages s) index of
                None \<Rightarrow> Inl (AttributeError, s)
              | Some new_page \<Rightarrow>
                  (let placed = new_page\<lparr>pos := (0, 0), extent := (width, height)\<rparr>;
                       curr_pos = pos placed;
                       moved = placed\<lparr>pos := qpoint_add curr_pos offset, visible := True\<rparr>;
                       s1 = s\<lparr>pages := (pages s)[nat index := moved],
                              raised := index # raised s\<rparr>;
                       current_page = (case widget_at (pages s1) (current s1) of
                                         None \<Rightarrow> None | Some p \<Rightarrow> Some (current s1));
                       anim_old = \<lparr>target = current_page, duration = 250,
                                   start_value = curr_pos,
                                   end_value = qpoint_sub curr_pos offset,
                                   easing_curve = OutQuad\<rparr>;
                       anim_new = \<lparr>target = Some index, duration = 250,
                                   start_value = qpoint_add curr_pos offset,
                                   end_value = curr_pos,
                                   easing_curve = OutQuad\<rparr>;
                       anim_group = \<lparr>animations = [anim_old, anim_new], then_current = index\<rparr>
                   in Inr (s1\<lparr>started := started s1 @ [anim_group]\<rparr>))))"

definition valid_directions :: "string set" where
  "valid_directions = {''left'', ''right'', ''up'', ''down''}"


section \<open>\<open>AvalonWidget.set_page\<close>\<close>

text \<open>
  The fields \<open>_slider\<close> and \<open>_page\<close> of \<open>AvalonWidget\<close>.  The slider's class comes from
  \<open>gui2/common.py\<close>, which is not among the sources, so its \<open>slide_view\<close> is a parameter of
  \<open>set_page\<close>.
\<close>

record avalon_widget =
  slider :: slide_page_widget
  page :: int

definition set_page ::
  "(slide_page_widget \<Rightarrow> int \<Rightarrow> string \<Rightarrow> slide_page_widget raising) \<Rightarrow>
   avalon_widget \<Rightarrow> int \<Rightarrow> avalon_widget raising" where
  "set_page slide s p =
     (let cur = current (slider s)
      in if cur = p \<and> page s = p then Inr s
         else (let direction = (if p > cur then ''right'' else ''left'');
                   s1 = s\<lparr>page := p\<rparr>
               in case slide (slider s1) p direction of
                    Inl (e, sl) \<Rightarrow> Inl (e, s1\<lparr>slider := sl\<rparr>)
                  | Inr sl \<Rightarrow> Inr (s1\<lparr>slider := sl\<rparr>)))"


section \<open>\<open>WorkspaceWidget\<close>\<close>

text \<open>A scope with its name and its \<open>upstream\<close> scope (\<open>None\<close> for a root-level entrance).\<close>

datatype scope = Scope (scope_name: string) (upstream: "scope option")

text \<open>
  What \<open>register_backends\<close> needs of a backend widget: the three signals it connects
  (present or not) and the three attributes it asserts to be callable.
\<close>

datatype attribute = Missing | NotCallable | Callable

record backend_widget =
  tools_requested :: bool
  workspace_changed :: bool
  workspace_refreshed :: bool
  enter_workspace :: attribute
  update_workspace :: attribute
  on_cache_cleared :: attribute

text \<open>
  A backend widget class: its \<open>icon_path\<close> attribute when it has one, and what calling
  the class gives (an instance, or the exception its constructor raises).
\<close>

record widget_cls =
  icon_path :: "string option"
  instantiate :: "error + backend_widget"

text \<open>
  The outcome of the two deferred imports of \<open>_load_backends\<close>: the class, or the
  exception of the import.  Every member of \<open>error\<close> is an \<open>Exception\<close>, which is what
  \<open>except Exception\<close> in \<open>register_backends\<close> catches.
\<close>

record import_results =
  widgets_avalon :: "error + widget_cls"
  widgets_sg_sync :: "error + widget_cls"

datatype getter = try_avalon_backend | try_sg_sync_backend

definition load_backends :: "string \<rightharpoonup> getter" where
  "load_backends = [''avalon'' \<mapsto> try_avalon_backend, ''sg_sync'' \<mapsto> try_sg_sync_backend]"

fun call_getter :: "import_results \<Rightarrow> getter \<Rightarrow> error + widget_cls" where
  "call_getter env try_avalon_backend = widgets_avalon env"
| "call_getter env try_sg_sync_backend = widgets_sg_sync env"

text \<open>The pages of \<open>self._stack\<close>: the plain \<open>QWidget\<close> \<open>void_page\<close>, or a backend widget.\<close>

datatype stack_page = VoidPage | BackendPage backend_widget

text \<open>
  \<open>QStackedWidget\<close> as Qt documents it: \<open>addWidget\<close> appends and makes the first page
  current, \<open>currentIndex()\<close> is \<open>-1\<close> without pages, \<open>setCurrentIndex\<close> ignores an index
  with no page, \<open>currentWidget()\<close> is the page at the current index if there is one.
\<close>

record stacked_widget =
  stack_pages :: "stack_page list"
  stack_current :: int

definition stack_count :: "stacked_widget \<Rightarrow> int" where
  "stack_count st = int (length (stack_pages st))"

definition stack_addWidget :: "stacked_widget \<Rightarrow> stack_page \<Rightarrow> stacked_widget" where
  "stack_addWidget st w =
     st\<lparr>stack_pages := stack_pages st @ [w],
        stack_current := (if stack_pages st = [] then 0 else stack_current st)\<rparr>"

definition stack_setCurrentIndex :: "stacked_widget \<Rightarrow> int \<Rightarrow> stacked_widget" where
  "stack_setCurrentIndex st i =
     (case widget_at (stack_pages st) i of
        None \<Rightarrow> st
      | Some w \<Rightarrow> st\<lparr>stack_current := i\<rparr>)"

definition stack_currentWidget :: "stacked_widget \<Rightarrow> stack_page option" where
  "stack_currentWidget st = widget_at (stack_pages st) (stack_current st)"

text \<open>
  \<open>QComboBox\<close> as Qt documents it: items are (icon, text) pairs, \<open>findText\<close> gives the
  index of the first item with that text or \<open>-1\<close>, \<open>currentText()\<close> is empty without a
  current item, and \<open>addItem\<close> on an empty box makes the new item current, which emits
  \<open>currentTextChanged\<close> with its text.
\<close>

record combo_box =
  combo_items :: "(string \<times> string) list"
  combo_current :: int

fun find_text :: "string list \<Rightarrow> string \<Rightarrow> int \<Rightarrow> int" where
  "find_text [] t i = -1"
| "find_text (x # xs) t i = (if x = t then i else find_text xs t (i + 1))"

definition combo_findText :: "combo_box \<Rightarrow> string \<Rightarrow> int" where
  "combo_findText c t = find_text (map snd (combo_items c)) t 0"

definition combo_count :: "combo_box \<Rightarrow> int" where
  "combo_count c = int (length (combo_items c))"

definition combo_currentText :: "combo_box \<Rightarrow> string" where
  "combo_currentText c =
     (case widget_at (combo_items c) (combo_current c) of
        None \<Rightarrow> []
      | Some item \<Rightarrow> snd item)"

definition combo_addItem ::
  "combo_box \<Rightarrow> string \<Rightarrow> string \<Rightarrow> combo_box \<times> string option" where
  "combo_addItem c icon t =
     (if combo_items c = []
      then (c\<lparr>combo_items := [(icon, t)], combo_current := 0\<rparr>, Some t)
      else (c\<lparr>combo_items := combo_items c @ [(icon, t)]\<rparr>, None))"

datatype signal = backend_changed string

text \<open>
  The widget: \<open>_stack\<close>, \<open>_combo\<close>, whether \<open>blockSignals(True)\<close> is in force, the signals
  the widget has emitted, the connections made from a backend page's signal (page index,
  signal name) to the widget's signal of the same name, and the records logged.
\<close>

record workspace_widget =
  stack :: stacked_widget
  combo :: combo_box
  signals_blocked :: bool
  emitted :: "signal list"
  connected :: "(nat \<times> string) list"
  ws_log :: "log_record list"

text \<open>\<open>WorkspaceWidget.__init__\<close>: the void page is page 0, the selector is empty.\<close>

definition workspace_init :: workspace_widget where
  "workspace_init =
     \<lparr>stack = stack_addWidget \<lparr>stack_pages = [], stack_current = -1\<rparr> VoidPage,
      combo = \<lparr>combo_items = [], combo_current = -1\<rparr>,
      signals_blocked = False,
      emitted = [],
      connected = [],
      ws_log = []\<rparr>"

text \<open>Emitting a signal of the widget does nothing while its signals are blocked.\<close>

definition emit :: "workspace_widget \<Rightarrow> signal \<Rightarrow> workspace_widget" where
  "emit s sig = (if signals_blocked s then s else s\<lparr>emitted := emitted s @ [sig]\<rparr>)"

definition on_backend_changed :: "workspace_widget \<Rightarrow> string \<Rightarrow> workspace_widget" where
  "on_backend_changed s name = emit s (backend_changed name)"

text \<open>
  \<open>WorkspaceWidget.on_workspace_entered\<close>.  The current page's \<open>enter_workspace\<close> is
  looked up on the page: the void page is a plain \<open>QWidget\<close> and has no such attribute
  (\<open>AttributeError\<close>, as on \<open>None\<close>), a backend page may lack it or hold something that
  cannot be called (\<open>TypeError\<close>).  What a backend's own \<open>enter_workspace\<close> does is
  outside this module; \<open>backend_enter\<close> gives the exception it raises, if any.
\<close>

definition on_workspace_entered ::
  "(backend_widget \<Rightarrow> scope \<Rightarrow> bool \<Rightarrow> error option) \<Rightarrow>
   workspace_widget \<Rightarrow> scope \<Rightarrow> workspace_widget raising" where
  "on_workspace_entered backend_enter s scope =
     (let (s2, changed) =
            (if upstream scope = None
             then (let index = combo_findText (combo s) (scope_name scope);
                       s1 = (if index < 0
                             then s\<lparr>ws_log := ws_log s @ [(CRITICAL, UnknownRootLevel (scope_name scope))]\<rparr>
                             else s);
                       index1 = index + 1
                   in if index1 \<noteq> stack_current (stack s1)
                      then (s1\<lparr>stack := stack_setCurrentIndex (stack s1) index1\<rparr>, True)
                      else (s1, False))
             else (s, False))
      in case stack_currentWidget (stack s2) of
           None \<Rightarrow> Inl (AttributeError, s2)
         | Some VoidPage \<Rightarrow> Inl (AttributeError, s2)
         | Some (BackendPage w) \<Rightarrow>
             (case enter_workspace w of
                Missing \<Rightarrow> Inl (AttributeError, s2)
              | NotCallable \<Rightarrow> Inl (TypeError, s2)
              | Callable \<Rightarrow>
                  (case backend_enter w scope changed of
                     Some e \<Rightarrow> Inl (e, s2)
                   | None \<Rightarrow> Inr s2)))"

text \<open>\<open>assert callable(widget.attr)\<close>: the attribute lookup may fail before the assertion.\<close>

fun assert_callable :: "attribute \<Rightarrow> error option" where
  "assert_callable Missing = Some AttributeError"
| "assert_callable NotCallable = Some AssertionError"
| "assert_callable Callable = None"

text \<open>
  The three \<open>connect\<close> calls and the three assertions on a fresh backend widget, in the
  order of the source: the first failure is the exception raised.
\<close>

definition check_widget :: "backend_widget \<Rightarrow> error option" where
  "check_widget w =
     (if tools_requested w \<and> workspace_changed w \<and> workspace_refreshed w
      then (case assert_callable (enter_workspace w) of
              Some e \<Rightarrow> Some e
            | None \<Rightarrow>
                (case assert_callable (update_workspace w) of
                   Some e \<Rightarrow> Some e
                 | None \<Rightarrow> assert_callable (on_cache_cleared w)))
      else Some AttributeError)"

text \<open>
  The body of the \<open>for name in names\<close> loop of \<open>register_backends\<close>.  A name without a
  getter, or whose getter raises, is logged and skipped (\<open>continue\<close>); an exception of the
  class call, of a \<open>connect\<close> or of an assertion is not caught and leaves the method (the
  widget just made is then dropped, with whatever was connected to it).
\<close>

definition register_backend ::
  "import_results \<Rightarrow> workspace_widget \<Rightarrow> string \<Rightarrow> workspace_widget raising" where
  "register_backend env s name =
     (case load_backends name of
        None \<Rightarrow> Inr (s\<lparr>ws_log := ws_log s @ [(ERROR, NoWidgetForBackend name)]\<rparr>)
      | Some widget_getter \<Rightarrow>
          (case call_getter env widget_getter of
             Inl e \<Rightarrow> Inr (s\<lparr>ws_log := ws_log s @ [(ERROR, FailedToGetWidget name e)]\<rparr>)
           | Inr cls \<Rightarrow>
               (let w_icon = (case icon_path cls of
                                None \<Rightarrow> '':/icons/server.svg''
                              | Some path \<Rightarrow> path)
                in case instantiate cls of
                     Inl e \<Rightarrow> Inl (e, s)
                   | Inr w \<Rightarrow>
                       (case check_widget w of
                          Some e \<Rightarrow> Inl (e, s)
                        | None \<Rightarrow>
                            (let n = length (stack_pages (stack s));
                                 s1 = s\<lparr>connected := connected s @
                                          [(n, ''tools_requested''), (n, ''workspace_changed''),
                                           (n, ''workspace_refreshed'')]\<rparr>;
                                 s2 = s1\<lparr>stack := stack_addWidget (stack s1) (BackendPage w)\<rparr>;
                                 (c, changed) = combo_addItem (combo s2) w_icon name;
                                 s3 = s2\<lparr>combo := c\<rparr>
                             in Inr (case changed of
                                       None \<Rightarrow> s3
                                     | Some t \<Rightarrow> on_backend_changed s3 t))))))"

fun register_loop ::
  "import_results \<Rightarrow> workspace_widget \<Rightarrow> string list \<Rightarrow> workspace_widget raising" where
  "register_loop env s [] = Inr s"
| "register_loop env s (n # ns) =
     (case register_backend env s n of
        Inl e \<Rightarrow> Inl e
      | Inr s1 \<Rightarrow> register_loop env s1 ns)"

definition register_backends ::
  "import_results \<Rightarrow> workspace_widget \<Rightarrow> string list \<Rightarrow> workspace_widget raising" where
  "register_backends env s names =
     (if stack_count (stack s) > 1 then Inr s
      else case register_loop env (s\<lparr>signals_blocked := True\<rparr>) names of
             Inl e \<Rightarrow> Inl e
           | Inr s1 \<Rightarrow>
               (let s2 = s1\<lparr>signals_blocked := False\<rparr>
                in Inr (if combo_count (combo s2) \<noteq> 0
                        then on_backend_changed s2 (combo_currentText (combo s2))
                        else s2\<lparr>ws_log := ws_log s2 @ [(ERROR, NoValidBackend)]\<rparr>)))"

text \<open>A name fails to load when it has no getter or its getter raises.\<close>

definition fails_to_load :: "import_results \<Rightarrow> string \<Rightarrow> bool" where
  "fails_to_load env n =
     (case load_backends n of
        None \<Rightarrow> True
      | Some g \<Rightarrow> (case call_getter env g of Inl e \<Rightarrow> True | Inr cls \<Rightarrow> False))"

text \<open>The record logged for a name that fails to load.\<close>

definition load_failure :: "import_results \<Rightarrow> string \<Rightarrow> log_record" where
  "load_failure env n =
     (case load_backends n of
        None \<Rightarrow> (ERROR, NoWidgetForBackend n)
      | Some g \<Rightarrow>
          (case call_getter env g of
             Inl e \<Rightarrow> (ERROR, FailedToGetWidget n e)
           | Inr cls \<Rightarrow> (ERROR, NoWidgetForBackend n)))"

text \<open>
  A name loads to widget \<open>w\<close> with icon \<open>icon\<close> when its getter gives a class whose call
  gives \<open>w\<close>, and \<open>w\<close> passes the connects and assertions.
\<close>

definition loads :: "import_results \<Rightarrow> string \<Rightarrow> string \<Rightarrow> backend_widget \<Rightarrow> bool" where
  "loads env n icon w =
     (case load_backends n of
        None \<Rightarrow> False
      | Some g \<Rightarrow>
          (case call_getter env g of
             Inl e \<Rightarrow> False
           | Inr cls \<Rightarrow>
               instantiate cls = Inr w \<and> check_widget w = None \<and>
               icon = (case icon_path cls of None \<Rightarrow> '':/icons/server.svg'' | Some path \<Rightarrow> path)))"


section \<open>\<open>ToolContextWidget.on_tool_selected\<close>\<close>

text \<open>
  A Python \<open>dict\<close> from strings to strings, as the list of its items in insertion order
  (a well-formed one has distinct keys).  \<open>d[k] = v\<close> replaces the value of an existing
  key in place and appends a new key, which is \<open>AList.update\<close>; \<open>d.update(other)\<close> does so
  for each item of \<open>other\<close> in order.
\<close>

type_synonym environ = "(string \<times> string) list"

definition dict_update :: "environ \<Rightarrow> environ \<Rightarrow> environ" where
  "dict_update d other = foldl (\<lambda>acc (k, v). AList.update k v acc) d other"

text \<open>
  The resolved context of a tool, as far as this method reads it: \<open>get_environ\<close> is the
  dict that \<open>context.get_environ()\<close> returns.
\<close>

record resolved_context =
  get_environ :: environ

record suite_tool =
  tool_name :: string
  ctx_name :: string
  tool_context :: resolved_context

text \<open>
  What the three child views hold after a call: the context given to
  \<open>ResolvedContextView.load\<close>, the dict given to the environment model's \<open>load\<close> (the
  environment on display), the notes given to its \<open>note\<close>, and the tool given to the
  launcher's \<open>set_tool\<close>.
\<close>

record tool_context_widget =
  context_loaded :: "resolved_context option"
  environ_loaded :: environ
  environ_noted :: "(string \<times> string) list"
  launcher_tool :: "suite_tool option"

text \<open>
  \<open>ToolContextWidget.on_tool_selected\<close>; \<open>inspect\<close> stands for
  \<open>lib.ContextEnvInspector.inspect\<close>, which is outside this module.
\<close>

definition on_tool_selected ::
  "(resolved_context \<Rightarrow> (string \<times> string) list) \<Rightarrow>
   tool_context_widget \<Rightarrow> suite_tool \<Rightarrow> environ \<Rightarrow> tool_context_widget" where
  "on_tool_selected inspect s tool work_env =
     (let ctx = tool_context tool;
          env = get_environ ctx;
          env1 = dict_update env work_env
      in s\<lparr>context_loaded := Some ctx,
           environ_loaded := env1,
           environ_noted := inspect ctx,
           launcher_tool := Some tool\<rparr>)"


section \<open>\<open>ResolvedEnvironment\<close>\<close>

datatype check_state = Unchecked | PartiallyChecked | Checked

datatype filter_mode = ByKey | ByValue

text \<open>
  Modelled from the spec: \<open>ResolvedEnvironmentProxyModel\<close> lives in \<open>gui/models.py\<close>,
  which is not among the sources.  The spec gives it a filter mode (by key or by value,
  mutually exclusive), an inverse flag and a filter text; \<open>filter_by_key\<close>,
  \<open>filter_by_value\<close> and \<open>inverse_filter\<close> set the first two, Qt's \<open>setFilterRegExp\<close> the
  third.
\<close>

record env_proxy =
  mode :: filter_mode
  inverse_flag :: bool
  filter_regexp :: string

definition filter_by_key :: "env_proxy \<Rightarrow> env_proxy" where
  "filter_by_key p = p\<lparr>mode := ByKey\<rparr>"

definition filter_by_value :: "env_proxy \<Rightarrow> env_proxy" where
  "filter_by_value p = p\<lparr>mode := ByValue\<rparr>"

definition inverse_filter :: "env_proxy \<Rightarrow> check_state \<Rightarrow> env_proxy" where
  "inverse_filter p state = p\<lparr>inverse_flag := (state \<noteq> Unchecked)\<rparr>"

definition setFilterRegExp :: "env_proxy \<Rightarrow> string \<Rightarrow> env_proxy" where
  "setFilterRegExp p t = p\<lparr>filter_regexp := t\<rparr>"

text \<open>
  The tree view: the rows with children it shows, and those of them that are expanded.
  \<open>expandAll\<close> and \<open>collapseAll\<close> are Qt's.
\<close>

record tree_view =
  expandable :: "nat set"
  expanded :: "nat set"

definition expandAll :: "tree_view \<Rightarrow> tree_view" where
  "expandAll v = v\<lparr>expanded := expandable v\<rparr>"

definition collapseAll :: "tree_view \<Rightarrow> tree_view" where
  "collapseAll v = v\<lparr>expanded := {}\<rparr>"

definition fully_expanded :: "tree_view \<Rightarrow> bool" where
  "fully_expanded v = (expanded v = expandable v)"

definition fully_collapsed :: "tree_view \<Rightarrow> bool" where
  "fully_collapsed v = (expanded v = {})"

text \<open>
  What the view does when its proxy model changes the filter: \<open>rows_of p\<close> are the rows
  with children that proxy \<open>p\<close> lets through (decided by \<open>models.py\<close> and the loaded
  environment, hence a parameter); a row that stays keeps its state, a row that appears
  is collapsed, a row that goes is forgotten.
\<close>

definition refiltered :: "(env_proxy \<Rightarrow> nat set) \<Rightarrow> env_proxy \<Rightarrow> tree_view \<Rightarrow> tree_view" where
  "refiltered rows_of p v = v\<lparr>expandable := rows_of p, expanded := expanded v \<inter> rows_of p\<rparr>"

text \<open>
  The widget: the text of \<open>_search\<close>, the label of \<open>_switch\<close>, \<open>_proxy\<close>, \<open>_view\<close>, and the
  interval the single-shot \<open>_timer\<close> was last started with, if it is pending.
\<close>

record resolved_environment =
  search_text :: string
  switch_text :: string
  proxy :: env_proxy
  view :: tree_view
  timer :: "nat option"

definition on_searched :: "resolved_environment \<Rightarrow> resolved_environment" where
  "on_searched s = s\<lparr>timer := Some 400\<rparr>"

definition on_switched ::
  "(env_proxy \<Rightarrow> nat set) \<Rightarrow> resolved_environment \<Rightarrow> check_state \<Rightarrow> resolved_environment" where
  "on_switched rows_of s state =
     (if state = Checked
      then (let s1 = s\<lparr>switch_text := ''On Key''\<rparr>;
                p = filter_by_key (proxy s1)
            in s1\<lparr>proxy := p, view := refiltered rows_of p (view s1)\<rparr>)
      else (let s1 = s\<lparr>switch_text := ''On Value''\<rparr>;
                p = filter_by_value (proxy s1)
            in s1\<lparr>proxy := p, view := refiltered rows_of p (view s1)\<rparr>))"

text \<open>
  \<open>reset_extension\<close> belongs to the vendored \<open>qoverview.VerticalExtendedTreeView\<close>, which
  is not among the sources: a parameter.
\<close>

definition on_inverse ::
  "(env_proxy \<Rightarrow> nat set) \<Rightarrow> (tree_view \<Rightarrow> tree_view) \<Rightarrow>
   resolved_environment \<Rightarrow> check_state \<Rightarrow> resolved_environment" where
  "on_inverse rows_of reset_extension s state =
     (let p = inverse_filter (proxy s) state;
          s1 = s\<lparr>proxy := p, view := refiltered rows_of p (view s)\<rparr>;
          search = search_text s1;
          s2 = s1\<lparr>view := (if length search > 1 then expandAll (view s1)
                             else collapseAll (view s1))\<rparr>
      in s2\<lparr>view := reset_extension (view s2)\<rparr>)"

definition deferred_search ::
  "(env_proxy \<Rightarrow> nat set) \<Rightarrow> (tree_view \<Rightarrow> tree_view) \<Rightarrow>
   resolved_environment \<Rightarrow> resolved_environment" where
  "deferred_search rows_of reset_extension s =
     (let search = search_text s;
          p = setFilterRegExp (proxy s) search;
          s1 = s\<lparr>proxy := p, view := refiltered rows_of p (view s), timer := None\<rparr>;
          s2 = s1\<lparr>view := (if length search > 1 then expandAll (view s1)
                             else collapseAll (view s1))\<rparr>
      in s2\<lparr>view := reset_extension (view s2)\<rparr>)"

text \<open>The rule of the spec: expanded in full for a text longer than 1, else collapsed in full.\<close>

definition expansion_follows_text :: "resolved_environment \<Rightarrow> bool" where
  "expansion_follows_text s =
     (if length (search_text s) > 1 then fully_expanded (view s) else fully_collapsed (view s))"


section \<open>Concrete widgets\<close>

text \<open>A busy widget with three descendants, the pointer resting over it, nothing outstanding.\<close>

definition busy_example :: busy_widget where
  "busy_example =
     \<lparr>widget = QObject 0 [QObject 1 [QObject 2 []], QObject 3 []],
      busy_works = {},
      entered = True,
      filtered = {},
      override_cursors = []\<rparr>"

text \<open>A slider with two pages, the first one current.\<close>

definition slider_example :: slide_page_widget where
  "slider_example =
     \<lparr>pages = [\<lparr>pos = (0, 0), extent = (300, 400), visible = True\<rparr>,
               \<lparr>pos = (0, 0), extent = (300, 400), visible = False\<rparr>],
      current = 0,
      frame_rect = (300, 400),
      raised = [],
      started = [],
      slide_log = []\<rparr>"

text \<open>An \<open>AvalonWidget\<close> on its second page.\<close>

definition avalon_example :: avalon_widget where
  "avalon_example = \<lparr>slider = slider_example\<lparr>current := 1\<rparr>, page = 1\<rparr>"


text \<open>A backend widget with the three signals and the three callables.\<close>

definition avalon_widget_ok :: backend_widget where
  "avalon_widget_ok =
     \<lparr>tools_requested = True, workspace_changed = True, workspace_refreshed = True,
      enter_workspace = Callable, update_workspace = Callable, on_cache_cleared = Callable\<rparr>"

text \<open>An installation where the ShotGrid backend cannot be imported and Avalon can.\<close>

definition imports_example :: import_results where
  "imports_example =
     \<lparr>widgets_avalon =
        Inr \<lparr>icon_path = Some '':/icons/avalon.svg'', instantiate = Inr avalon_widget_ok\<rparr>,
      widgets_sg_sync = Inl ImportError\<rparr>"

text \<open>The workspace widget once Avalon is registered and ShotGrid has failed to load.\<close>

definition workspace_registered :: workspace_widget where
  "workspace_registered =
     \<lparr>stack = \<lparr>stack_pages = [VoidPage, BackendPage avalon_widget_ok], stack_current = 0\<rparr>,
      combo = \<lparr>combo_items = [('':/icons/avalon.svg'', ''avalon'')], combo_current = 0\<rparr>,
      signals_blocked = False,
      emitted = [backend_changed ''avalon''],
      connected = [(1, ''tools_requested''), (1, ''workspace_changed''),
                   (1, ''workspace_refreshed'')],
      ws_log = [(ERROR, FailedToGetWidget ''sg_sync'' ImportError)]\<rparr>"

text \<open>A tool whose context computes two variables, and a tool context widget showing nothing.\<close>

definition tool_example :: suite_tool where
  "tool_example =
     \<lparr>tool_name = ''maya'', ctx_name = ''show'',
      tool_context = \<lparr>get_environ = [(''PATH'', ''/a:/b''), (''HOME'', ''/home/me'')]\<rparr>\<rparr>"

definition tool_context_empty :: tool_context_widget where
  "tool_context_empty =
     \<lparr>context_loaded = None, environ_loaded = [], environ_noted = [], launcher_tool = None\<rparr>"

text \<open>
  An environment view filtering by key with the search text \<open>ab\<close>, whose tree has one row
  with children, collapsed (as after a new environment was loaded into the model).
\<close>

definition environ_example :: resolved_environment where
  "environ_example =
     \<lparr>search_text = ''ab'',
      switch_text = ''On Key'',
      proxy = \<lparr>mode = ByKey, inverse_flag = False, filter_regexp = ''ab''\<rparr>,
      view = \<lparr>expandable = {0}, expanded = {}\<rparr>,
      timer = None\<rparr>"


section \<open>Properties of \<open>BusyWidget\<close>\<close>

lemma foldl_action_fields:
  "busy_works (foldl (action b) s ws) = busy_works s \<and>
   entered (foldl (action b) s ws) = entered s \<and>
   widget (foldl (action b) s ws) = widget s \<and>
   override_cursors (foldl (action b) s ws) = override_cursors s"
  by (induction ws arbitrary: s) (simp_all add: action_def)

lemma foldl_action_filtered:
  "filtered (foldl (action b) s ws) =
     (if b then filtered s \<union> oid ` set ws else filtered s - oid ` set ws)"
  by (induction ws arbitrary: s) (auto simp: action_def)

lemma block_children_fields:
  "busy_works (block_children b s) = busy_works s"
  "entered (block_children b s) = entered s"
  "widget (block_children b s) = widget s"
  "override_cursors (block_children b s) = override_cursors s"
  by (simp_all add: block_children_def Let_def action_def foldl_action_fields)

lemma block_children_filtered:
  "filtered (block_children b s) =
     (if b then filtered s \<union> subtree_ids s else filtered s - subtree_ids s)"
  by (auto simp: block_children_def Let_def action_def foldl_action_filtered
      foldl_action_fields subtree_ids_def)

lemma subtree_ids_block_children:
  "subtree_ids (block_children b s) = subtree_ids s"
  by (simp add: subtree_ids_def block_children_fields)

text \<open>
  Claim C2.  Starting from a widget with no outstanding work, two calls of
  \<open>set_overwhelmed w\<close> followed by one call of \<open>pop_overwhelmed w\<close> leave the busy-work
  set empty and the widget unblocked: the two adds are one set membership (with the
  whole subtree blocked meanwhile), and after the pop the busy filter is installed on no
  object of the widget's subtree, and the override cursor stack and the entered flag are
  as they were.
\<close>

theorem set_twice_pop_once_unblocks:
  assumes "busy_works s = {}"
  shows "busy_works (set_overwhelmed (set_overwhelmed s w) w) = {w} \<and>
         blocked_ids (set_overwhelmed (set_overwhelmed s w) w) = subtree_ids s \<and>
         busy_works (pop_overwhelmed (set_overwhelmed (set_overwhelmed s w) w) w) = {} \<and>
         blocked_ids (pop_overwhelmed (set_overwhelmed (set_overwhelmed s w) w) w) = {} \<and>
         override_cursors (pop_overwhelmed (set_overwhelmed (set_overwhelmed s w) w) w)
           = override_cursors s \<and>
         entered (pop_overwhelmed (set_overwhelmed (set_overwhelmed s w) w) w) = entered s"
proof -
  let ?s1 = "set_overwhelmed s w"
  let ?s2 = "set_overwhelmed ?s1 w"
  let ?s3 = "pop_overwhelmed ?s2 w"
  have s1: "?s1 = (block_children True (if entered s then over_busy_cursor True s else s))
              \<lparr>busy_works := {w}\<rparr>"
    using assms
    by (simp add: set_overwhelmed_def Let_def block_children_fields over_busy_cursor_def)
  have b1: "busy_works ?s1 = {w}" by (simp add: s1)
  have s2: "?s2 = ?s1"
    using b1 by (simp add: set_overwhelmed_def Let_def)
  have e1: "entered ?s1 = entered s"
    by (simp add: s1 block_children_fields over_busy_cursor_def)
  have w1: "widget ?s1 = widget s"
    by (simp add: s1 block_children_fields over_busy_cursor_def)
  have c1: "override_cursors ?s1 =
              (if entered s then BusyCursor # override_cursors s else override_cursors s)"
    by (simp add: s1 block_children_fields over_busy_cursor_def)
  have k1: "blocked_ids ?s1 = subtree_ids s"
    by (auto simp: s1 blocked_ids_def subtree_ids_def block_children_filtered
        block_children_fields over_busy_cursor_def)
  define t where "t = ?s1\<lparr>busy_works := {}\<rparr>"
  have s3: "?s3 = block_children False (if entered t then over_busy_cursor False t else t)"
    using b1 by (simp add: s2 pop_overwhelmed_def Let_def t_def)
  have "busy_works ?s3 = {}"
    by (simp add: s3 block_children_fields over_busy_cursor_def t_def)
  moreover have "blocked_ids ?s3 = {}"
    by (auto simp: s3 blocked_ids_def block_children_filtered subtree_ids_block_children)
  moreover have "override_cursors ?s3 = override_cursors s"
    by (simp add: s3 block_children_fields over_busy_cursor_def t_def c1 e1)
  moreover have "entered ?s3 = entered s"
    by (simp add: s3 block_children_fields over_busy_cursor_def t_def e1)
  ultimately show ?thesis using b1 s2 k1 by simp
qed

theorem set_twice_pop_once_unblocks_witness:
  "busy_works busy_example = {} \<and>
   busy_works (set_overwhelmed (set_overwhelmed busy_example ''avalon'') ''avalon'') = {''avalon''} \<and>
   blocked_ids (set_overwhelmed (set_overwhelmed busy_example ''avalon'') ''avalon'') = {0, 1, 2, 3} \<and>
   busy_works (pop_overwhelmed (set_overwhelmed (set_overwhelmed busy_example ''avalon'') ''avalon'') ''avalon'') = {} \<and>
   blocked_ids (pop_overwhelmed (set_overwhelmed (set_overwhelmed busy_example ''avalon'') ''avalon'') ''avalon'') = {} \<and>
   override_cursors (pop_overwhelmed (set_overwhelmed (set_overwhelmed busy_example ''avalon'') ''avalon'') ''avalon'') = []"
proof -
  have h: "busy_works busy_example = {}" by (simp add: busy_example_def)
  show ?thesis
    using h set_twice_pop_once_unblocks [OF h, of "''avalon''"]
    by (auto simp: busy_example_def subtree_ids_def)
qed

text \<open>
  Claim C10.  When the busy-work set is not empty and \<open>w\<close> is not a member of it,
  \<open>pop_overwhelmed w\<close> changes nothing: the widget's state after the call, with its
  busy-work set, the installed filters and the override cursors, is the state before it.
\<close>

theorem pop_absent_worker_unchanged:
  assumes "busy_works s \<noteq> {}" and "w \<notin> busy_works s"
  shows "pop_overwhelmed s w = s"
  using assms by (simp add: pop_overwhelmed_def)

theorem pop_absent_worker_unchanged_witness:
  "busy_works (set_overwhelmed busy_example ''avalon'') \<noteq> {} \<and>
   ''sg_sync'' \<notin> busy_works (set_overwhelmed busy_example ''avalon'') \<and>
   pop_overwhelmed (set_overwhelmed busy_example ''avalon'') ''sg_sync''
     = set_overwhelmed busy_example ''avalon''"
proof -
  have a: "busy_works (set_overwhelmed busy_example ''avalon'') \<noteq> {}"
    by (simp add: set_overwhelmed_def Let_def)
  have b: "''sg_sync'' \<notin> busy_works (set_overwhelmed busy_example ''avalon'')"
    by (simp add: set_overwhelmed_def Let_def busy_example_def block_children_fields
        over_busy_cursor_def)
  show ?thesis using a b pop_absent_worker_unchanged [OF a b] by simp
qed


section \<open>Properties of \<open>SlidePageWidget\<close> and \<open>AvalonWidget.set_page\<close>\<close>

lemma dom_directions: "dom directions = valid_directions"
  by (auto simp: directions_def valid_directions_def split: if_splits)

text \<open>
  Claim C5.  \<open>slide_view\<close> called with the current index returns at once, whatever the
  direction token: the widget is as before, so no animation group was started and the
  current index is the same.
\<close>

theorem slide_view_same_index_noop:
  "slide_view s (current s) d = Inr s"
  by (simp add: slide_view_def)

theorem slide_view_same_index_noop_witness:
  "current slider_example = 0 \<and> slide_view slider_example 0 ''sideways'' = Inr slider_example"
proof -
  have a: "current slider_example = 0" by (simp add: slider_example_def)
  show ?thesis using a slide_view_same_index_noop [of slider_example "''sideways''"] by simp
qed

text \<open>
  Claim C6.  \<open>slide_view\<close> called with another index and a direction token that is none of
  left, right, up, down returns after logging one warning: the widget differs from the
  one before only by that one record at the end of the log, so the current index, the
  pages and the started animations are untouched.
\<close>

theorem slide_view_invalid_direction:
  assumes "i \<noteq> current s" and "d \<notin> valid_directions"
  shows "slide_view s i d =
           Inr (s\<lparr>slide_log := slide_log s @ [(WARNING, InvalidSlideDirection d)]\<rparr>)"
proof -
  have "directions d = None" using assms(2) dom_directions by blast
  then show ?thesis using assms(1) by (simp add: slide_view_def)
qed

theorem slide_view_invalid_direction_witness:
  "1 \<noteq> current slider_example \<and> ''sideways'' \<notin> valid_directions \<and>
   slide_view slider_example 1 ''sideways''
     = Inr (slider_example\<lparr>slide_log := [(WARNING, InvalidSlideDirection ''sideways'')]\<rparr>)"
proof -
  have a: "1 \<noteq> current slider_example" by (simp add: slider_example_def)
  have b: "''sideways'' \<notin> valid_directions" by (simp add: valid_directions_def)
  have c: "slide_log slider_example = []" by (simp add: slider_example_def)
  show ?thesis using a b c slide_view_invalid_direction [OF a b] by simp
qed

text \<open>
  Claim C7.  When \<open>p\<close> is both the slider's current index and the cached \<open>_page\<close>,
  \<open>set_page p\<close> returns the widget as it is, without calling the slider's \<open>slide_view\<close>
  (the result does not depend on it); a second call on the result gives the same widget
  again.
\<close>

theorem set_page_same_page_noop:
  assumes "current (slider s) = p" and "page s = p"
  shows "set_page slide s p = Inr s \<and>
         (case set_page slide s p of
            Inl e \<Rightarrow> False
          | Inr s1 \<Rightarrow> set_page slide s1 p = Inr s)"
  using assms by (simp add: set_page_def)

theorem set_page_same_page_noop_witness:
  "current (slider avalon_example) = 1 \<and> page avalon_example = 1 \<and>
   set_page slide_view avalon_example 1 = Inr avalon_example"
proof -
  have a: "current (slider avalon_example) = 1" by (simp add: avalon_example_def)
  have b: "page avalon_example = 1" by (simp add: avalon_example_def)
  show ?thesis using a b set_page_same_page_noop [OF a b, of slide_view] by simp
qed


section \<open>Properties of \<open>WorkspaceWidget\<close>\<close>

lemma find_text_negative: "find_text xs t i < 0 \<Longrightarrow> 0 \<le> i \<Longrightarrow> find_text xs t i = -1"
  by (induction xs t i rule: find_text.induct) (auto split: if_splits)

text \<open>
  Entering a root scope whose name the selector does not hold: whenever page 0 is the void
  page (as \<open>__init__\<close> leaves it), the method logs one critical record, makes page 0
  current and then raises \<open>AttributeError\<close>, because it goes on to call
  \<open>enter_workspace\<close> on the void page.
\<close>

lemma unknown_root_raises:
  assumes "upstream scope = None"
    and "combo_findText (combo s) (scope_name scope) < 0"
    and "stack_pages (stack s) = VoidPage # ps"
  shows "on_workspace_entered backend_enter s scope =
           Inl (AttributeError,
                s\<lparr>ws_log := ws_log s @ [(CRITICAL, UnknownRootLevel (scope_name scope))],
                  stack := (stack s)\<lparr>stack_current := 0\<rparr>\<rparr>)"
proof -
  have "combo_findText (combo s) (scope_name scope) = -1"
    using assms(2) by (simp add: combo_findText_def find_text_negative)
  then show ?thesis
    using assms(1,3)
    by (auto simp: on_workspace_entered_def Let_def stack_setCurrentIndex_def widget_at_def
        stack_currentWidget_def)
qed

text \<open>
  Claim C1.  The code at the root scope \<open>Studio\<close>, on a fresh widget and on one with
  Avalon registered (the selector holds no \<open>Studio\<close> in either): one critical record is
  logged, and the call ends in \<open>AttributeError\<close> instead of returning.
\<close>

theorem entering_unknown_root_raises:
  "on_workspace_entered backend_enter workspace_init (Scope ''Studio'' None) =
     Inl (AttributeError, workspace_init\<lparr>ws_log := [(CRITICAL, UnknownRootLevel ''Studio'')]\<rparr>) \<and>
   on_workspace_entered backend_enter workspace_registered (Scope ''Studio'' None) =
     Inl (AttributeError,
          workspace_registered\<lparr>ws_log := [(ERROR, FailedToGetWidget ''sg_sync'' ImportError),
                                           (CRITICAL, UnknownRootLevel ''Studio'')]\<rparr>) \<and>
   count_level CRITICAL [(ERROR, FailedToGetWidget ''sg_sync'' ImportError),
                         (CRITICAL, UnknownRootLevel ''Studio'')] = 1"
  by (simp add: on_workspace_entered_def workspace_init_def workspace_registered_def
      combo_findText_def Let_def stack_addWidget_def stack_currentWidget_def widget_at_def
      count_level_def)

lemma register_backend_fails:
  assumes "fails_to_load env x"
  shows "register_backend env s x = Inr (s\<lparr>ws_log := ws_log s @ [load_failure env x]\<rparr>)"
  using assms
  by (auto simp: register_backend_def fails_to_load_def load_failure_def
      split: option.splits sum.splits)



lemma register_backend_loads:
  assumes "loads env y icon w"
  shows "register_backend env s y =
           Inr (let n = length (stack_pages (stack s));
                    c = combo_addItem (combo s) icon y;
                    s3 = s\<lparr>connected := connected s @
                             [(n, ''tools_requested''), (n, ''workspace_changed''),
                              (n, ''workspace_refreshed'')],
                           stack := stack_addWidget (stack s) (BackendPage w),
                           combo := fst c\<rparr>
                in (case snd c of None \<Rightarrow> s3 | Some t \<Rightarrow> on_backend_changed s3 t))"
  using assms
  by (auto simp: register_backend_def loads_def Let_def
      split: option.splits sum.splits prod.splits)



text \<open>
  With ShotGrid failing to import, registering \<open>["sg_sync", "avalon"]\<close> on a fresh
  widget gives \<open>workspace_registered\<close>.
\<close>

lemma register_example:
  "register_backends imports_example workspace_init [''sg_sync'', ''avalon''] =
     Inr workspace_registered"
proof -
  have a: "fails_to_load imports_example ''sg_sync''"
    by (simp add: fails_to_load_def load_backends_def imports_example_def)
  have b: "loads imports_example ''avalon'' '':/icons/avalon.svg'' avalon_widget_ok"
    by (simp add: loads_def load_backends_def imports_example_def check_widget_def
        avalon_widget_ok_def)
  have f: "load_failure imports_example ''sg_sync'' = (ERROR, FailedToGetWidget ''sg_sync'' ImportError)"
    by (simp add: load_failure_def load_backends_def imports_example_def)
  show ?thesis
    by (simp add: register_backends_def register_backend_fails [OF a] f
        register_backend_loads [OF b] Let_def combo_addItem_def on_backend_changed_def
        emit_def stack_addWidget_def combo_count_def combo_currentText_def widget_at_def
        workspace_init_def stack_count_def workspace_registered_def)
qed

text \<open>
  Claim C9.  Once the stack holds more than the void page, \<open>register_backends\<close> returns
  at once for every list of names: the widget is as before, so no page or selector entry
  was added or removed and no signal was emitted.
\<close>

theorem register_backends_once:
  assumes "stack_count (stack s) > 1"
  shows "register_backends env s names = Inr s"
  using assms by (simp add: register_backends_def)

theorem register_backends_once_witness:
  "stack_count (stack workspace_registered) > 1 \<and>
   register_backends imports_example workspace_registered [''avalon'', ''sg_sync'']
     = Inr workspace_registered"
proof -
  have a: "stack_count (stack workspace_registered) > 1"
    by (simp add: workspace_registered_def stack_count_def)
  show ?thesis
    using a register_backends_once [OF a, of imports_example "[''avalon'', ''sg_sync'']"]
    by simp
qed


section \<open>Properties of \<open>ToolContextWidget.on_tool_selected\<close>\<close>

text \<open>
  \<open>d.update(other)\<close> as a map: the bindings of \<open>other\<close> laid over those of \<open>d\<close>.  The keys
  of \<open>other\<close> are distinct, as those of a dict are.
\<close>

lemma map_of_foldl_update:
  "distinct (map fst ws) \<Longrightarrow>
   map_of (foldl (\<lambda>acc (k, v). AList.update k v acc) d ws) = map_of d ++ map_of ws"
proof (induction ws arbitrary: d)
  case Nil
  then show ?case by simp
next
  case (Cons p ws)
  obtain k v where p: "p = (k, v)" by (cases p)
  from Cons.prems p have k: "k \<notin> fst ` set ws" and d: "distinct (map fst ws)" by auto
  have "map_of (foldl (\<lambda>acc (k, v). AList.update k v acc) d (p # ws))
          = map_of (AList.update k v d) ++ map_of ws"
    using Cons.IH [OF d] p by simp
  also have "\<dots> = (map_of d)(k \<mapsto> v) ++ map_of ws"
    by (simp add: update_conv')
  also have "\<dots> = map_of d ++ (map_of ws)(k \<mapsto> v)"
  proof (rule ext)
    fix x
    have "map_of ws k = None" using k by (simp add: map_of_eq_None_iff)
    then show "((map_of d)(k \<mapsto> v) ++ map_of ws) x = (map_of d ++ (map_of ws)(k \<mapsto> v)) x"
      by (cases "x = k") (simp_all add: map_add_def split: option.splits)
  qed
  finally have f: "map_of (foldl (\<lambda>acc (k, v). AList.update k v acc) d (p # ws))
                     = map_of d ++ (map_of ws)(k \<mapsto> v)" .
  have e: "map_of d ++ map_of (p # ws) = map_of d ++ (map_of ws)(k \<mapsto> v)"
    using p by simp
  show ?case by (rule trans [OF f e [symmetric]])
qed

lemma dict_update_keys_distinct:
  "distinct (map fst d) \<Longrightarrow> distinct (map fst (dict_update d ws))"
  unfolding dict_update_def
  by (induction ws arbitrary: d) (auto simp: distinct_update)

text \<open>
  Claim C4.  The environment that \<open>on_tool_selected\<close> puts on display is the context's
  computed environment with the local overrides merged in: the value shown for a key is
  the override's where the overrides have the key, and the computed one (if any) where
  they have not; no computed key is dropped.
\<close>

theorem shown_environ_is_merge:
  assumes "distinct (map fst work_env)"
  shows "map_of (environ_loaded (on_tool_selected inspect s tool work_env)) k =
           (case map_of work_env k of
              Some v \<Rightarrow> Some v
            | None \<Rightarrow> map_of (get_environ (tool_context tool)) k)"
  using assms
  by (simp add: on_tool_selected_def Let_def dict_update_def map_of_foldl_update map_add_def)

theorem shown_environ_is_merge_witness:
  "distinct (map fst [(''PATH'', ''/c'')]) \<and>
   map_of (get_environ (tool_context tool_example)) ''PATH'' = Some ''/a:/b'' \<and>
   map_of (environ_loaded (on_tool_selected (\<lambda>c. []) tool_context_empty tool_example
             [(''PATH'', ''/c'')])) ''PATH'' = Some ''/c'' \<and>
   map_of (environ_loaded (on_tool_selected (\<lambda>c. []) tool_context_empty tool_example
             [(''PATH'', ''/c'')])) ''HOME'' = Some ''/home/me''"
proof -
  have d: "distinct (map fst [(''PATH'', ''/c'')])" by simp
  show ?thesis
    using d
      shown_environ_is_merge [OF d, of "\<lambda>c. []" tool_context_empty tool_example "''PATH''"]
      shown_environ_is_merge [OF d, of "\<lambda>c. []" tool_context_empty tool_example "''HOME''"]
    by (simp add: tool_example_def)
qed


section \<open>Properties of \<open>ResolvedEnvironment\<close>\<close>

text \<open>
  The inverse toggle and the debounced search end with \<open>expandAll\<close> or \<open>collapseAll\<close>
  chosen by the length of the search text, so the rule holds after them, provided the
  vendored \<open>reset_extension\<close> leaves the expansion of the tree alone.
\<close>

lemma on_inverse_follows_text:
  assumes "\<And>v. expanded (reset_extension v) = expanded v"
    and "\<And>v. expandable (reset_extension v) = expandable v"
  shows "expansion_follows_text (on_inverse rows_of reset_extension s state)"
  using assms
  by (simp add: on_inverse_def expansion_follows_text_def Let_def fully_expanded_def
      fully_collapsed_def expandAll_def collapseAll_def refiltered_def)

lemma deferred_search_follows_text:
  assumes "\<And>v. expanded (reset_extension v) = expanded v"
    and "\<And>v. expandable (reset_extension v) = expandable v"
  shows "expansion_follows_text (deferred_search rows_of reset_extension s)"
  using assms
  by (simp add: deferred_search_def expansion_follows_text_def Let_def fully_expanded_def
      fully_collapsed_def expandAll_def collapseAll_def refiltered_def)

text \<open>
  The mode switch calls neither: the view after it is the view before it, refiltered.
\<close>

lemma on_switched_view:
  "view (on_switched rows_of s state) =
     refiltered rows_of
       (if state = Checked then filter_by_key (proxy s) else filter_by_value (proxy s))
       (view s)"
  by (simp add: on_switched_def Let_def)

text \<open>
  Claim C8.  The code at a mode switch: with the search text \<open>ab\<close> (longer than 1) and a
  collapsed row that both filter modes let through, switching from key to value leaves
  the row collapsed, so the tree is not expanded in full after this change of filter.
\<close>

theorem mode_switch_leaves_tree_collapsed:
  "search_text (on_switched (\<lambda>p. {0}) environ_example Unchecked) = ''ab'' \<and>
   mode (proxy (on_switched (\<lambda>p. {0}) environ_example Unchecked)) = ByValue \<and>
   view (on_switched (\<lambda>p. {0}) environ_example Unchecked)
     = \<lparr>expandable = {0}, expanded = {}\<rparr> \<and>
   \<not> fully_expanded (view (on_switched (\<lambda>p. {0}) environ_example Unchecked)) \<and>
   \<not> expansion_follows_text (on_switched (\<lambda>p. {0}) environ_example Unchecked)"
  by (simp add: on_switched_def environ_example_def Let_def filter_by_value_def refiltered_def
      fully_expanded_def expansion_follows_text_def)

end
